theory Spec2Isabelle
  imports Main
begin

section \<open>Values of the JavaScript platform\<close>

text \<open>
  The service is one file, \<^verbatim>\<open>src/api/index.js\<close>: an Express application with two
  PostgreSQL pools (a replica for reads, a primary for writes) and a Redis client used as
  a side cache. This theory embeds the cache wrappers, the liveness flag and the routes
  \<^verbatim>\<open>GET /health\<close>, \<^verbatim>\<open>GET /products/:id\<close> and \<^verbatim>\<open>PUT /products/:id\<close>.

  A JavaScript string is a \<open>string\<close>; each \<open>char\<close> stands for one code unit below 256.

  A JavaScript Number is represented only as far as the routes look at it:
  \<^item> \<open>NaN\<close>;
  \<^item> \<open>Integral n\<close>: the Number whose value is the integer \<open>n\<close>, where
    \<open>\<bar>n\<bar> \<le> MAX_SAFE_INTEGER\<close>, the range in which a double holds every integer exactly
    and prints it as its decimal digits;
  \<^item> \<open>Fractional\<close>: a finite Number that is not an integer;
  \<^item> \<open>Huge\<close>: a Number of magnitude above \<open>MAX_SAFE_INTEGER\<close>, the infinities included.
    Its value is a rounded double and is not represented.
\<close>

datatype number = NaN | Integral int | Fractional | Huge

definition MAX_SAFE_INTEGER :: int where
  "MAX_SAFE_INTEGER = 2 ^ 53 - 1"

subsection \<open>\<^verbatim>\<open>parseInt(string, 10)\<close>\<close>

text \<open>
  ECMAScript \<^verbatim>\<open>parseInt\<close> with radix 10: leading white space is skipped, one sign is read,
  then the longest prefix of decimal digits; no digit gives \<open>NaN\<close>, and whatever follows
  the digits is ignored. With radix 10 no \<^verbatim>\<open>0x\<close> prefix is recognised.
\<close>

definition StrWhiteSpaceChar :: "char \<Rightarrow> bool" where
  "StrWhiteSpaceChar c \<longleftrightarrow>
     of_char c \<in> {0x09, 0x0A, 0x0B, 0x0C, 0x0D, 0x20, 0xA0 :: nat}"

definition isDigit :: "char \<Rightarrow> bool" where
  "isDigit c \<longleftrightarrow> 48 \<le> (of_char c :: nat) \<and> (of_char c :: nat) \<le> 57"

definition digitValue :: "char \<Rightarrow> int" where
  "digitValue c = int (of_char c) - 48"

definition mathInt :: "string \<Rightarrow> int" where
  "mathInt Z = foldl (\<lambda>a c. 10 * a + digitValue c) 0 Z"

definition parseInt :: "string \<Rightarrow> number" where
  "parseInt inputString =
     (let S = dropWhile StrWhiteSpaceChar inputString;
          sign = (if S \<noteq> [] \<and> hd S = CHR ''-'' then - 1 else 1 :: int);
          S1 = (if S \<noteq> [] \<and> (hd S = CHR ''+'' \<or> hd S = CHR ''-'') then tl S else S);
          Z = takeWhile isDigit S1
      in if Z = [] then NaN
         else if \<bar>sign * mathInt Z\<bar> \<le> MAX_SAFE_INTEGER then Integral (sign * mathInt Z)
         else Huge)"

subsection \<open>Number to string, as a template literal does it\<close>

fun digits :: "nat \<Rightarrow> string" where
  "digits n =
     (if n < 10 then [''0123456789'' ! n]
      else digits (n div 10) @ [''0123456789'' ! (n mod 10)])"

declare digits.simps [simp del]

definition Number_toString :: "int \<Rightarrow> string" where
  "Number_toString n = (if n < 0 then CHR ''-'' # digits (nat (- n)) else digits (nat n))"

section \<open>Rows, requests and responses\<close>

text \<open>
  A row of table \<^verbatim>\<open>products\<close>. The schema is not part of the repository; the columns
  are the ones the SQL statements of the routes name.
\<close>

record product =
  pid :: int
  name :: string
  price_cents :: int
  updated_at :: nat

text \<open>
  The JSON body of a \<^verbatim>\<open>PUT\<close>, for clients that send \<^verbatim>\<open>name\<close> as a string and
  \<^verbatim>\<open>price_cents\<close> as a number; \<open>None\<close> is a property that is absent. A request without
  a body at all is \<open>None\<close> of \<open>put_body option\<close>, which \<^verbatim>\<open>req.body || {}\<close> turns into
  the object with no property.
\<close>

record put_body =
  body_name :: "string option"
  body_price_cents :: "number option"

text \<open>
  What a route hands to \<^verbatim>\<open>res.json\<close>: \<open>ErrorBody m\<close> is the object
  \<^verbatim>\<open>{ error: m }\<close>; \<open>ObjectBody\<close> is an object literal whose properties are booleans,
  given as the property names with their values in the order of the source; \<open>RowBody\<close>
  is a row of a query result; and \<open>ParsedBody\<close> is a value that \<^verbatim>\<open>JSON.parse\<close> returned
  (of the platform's type \<open>'j\<close>).
\<close>

datatype 'j body =
    ErrorBody string
  | ObjectBody "(string \<times> bool) list"
  | RowBody product
  | ParsedBody 'j

record 'j response =
  status :: nat
  x_cache :: "string option"
  body :: "'j body"

text \<open>
  The end of a handler: it sent a response; or its promise rejected because an awaited
  database call threw outside any \<^verbatim>\<open>try\<close> (what the client then sees is Express's
  business); or it inspected a \<open>Huge\<close> or \<open>Fractional\<close> Number where this embedding does not
  represent the value.
\<close>

datatype 'j reply = Sent "'j response" | Rejected | Unmodelled

text \<open>
  The parts of the runtime that the routes use and the repository does not contain:
  \<^verbatim>\<open>JSON.parse\<close> (\<open>None\<close> when it throws), \<^verbatim>\<open>JSON.stringify\<close> on a row, and the
  environment variable \<^verbatim>\<open>process.env.CACHE_TTL_SECONDS\<close> (\<open>None\<close> when it is not set).
\<close>

record 'j platform =
  JSON_parse :: "string \<Rightarrow> 'j option"
  JSON_stringify :: "product \<Rightarrow> string"
  env_CACHE_TTL_SECONDS :: "string option"

text \<open>\<^verbatim>\<open>parseInt(process.env.CACHE_TTL_SECONDS || "60", 10)\<close>.\<close>

definition CACHE_TTL_SECONDS :: "'j platform \<Rightarrow> number" where
  "CACHE_TTL_SECONDS js =
     parseInt (case env_CACHE_TTL_SECONDS js of
                 None \<Rightarrow> ''60''
               | Some s \<Rightarrow> if s = [] then ''60'' else s)"

section \<open>The process and its collaborators\<close>

text \<open>
  The events \<^verbatim>\<open>ready\<close>, \<^verbatim>\<open>end\<close> and \<^verbatim>\<open>error\<close> of the Redis client, each with a
  listener (\<^verbatim>\<open>redis.on\<close>) that writes \<^verbatim>\<open>redisReady\<close>.
\<close>

datatype lifecycle = Ready | End | Error

text \<open>
  What the environment does while the handler is suspended at the \<^verbatim>\<open>await\<close> of one
  call to Redis or to a pool: whether the call rejects (for whatever cause: the connection,
  a timeout, an argument the server refuses), and which connection events fire before the
  handler resumes. A call that rejects has no effect on the data.
\<close>

record tick =
  rejects :: bool
  events :: "lifecycle list"

text \<open>The I/O calls issued, in order.\<close>

datatype io =
    RedisGet string
  | RedisSet string string number
  | RedisDel string
  | ReadSelect int
  | WriteUpdate string int int

text \<open>
  The process and what it talks to: the liveness flag \<^verbatim>\<open>redisReady\<close>, the entries of the
  Redis server (text and \<^verbatim>\<open>EX\<close> seconds under each key), table \<^verbatim>\<open>products\<close> on the
  replica and on the primary (by id), the primary's clock, the calls issued so far, and
  the ticks the environment will play at the coming \<^verbatim>\<open>await\<close>s (none left: the calls
  complete and no event fires).
\<close>

record world =
  redisReady :: bool
  redis :: "string \<rightharpoonup> string \<times> number"
  replica :: "int \<rightharpoonup> product"
  primary :: "int \<rightharpoonup> product"
  now :: nat
  calls :: "io list"
  script :: "tick list"

text \<open>
  What an awaited call ends with: its value, or what it threw. \<open>ErrorObject m\<close> is
  \<^verbatim>\<open>new Error(m)\<close>; \<open>ClientRejection\<close> is whatever a client library rejects its promise
  with. The handlers catch without looking at the error.
\<close>

datatype failure = ErrorObject string | ClientRejection

datatype 'a completion = Returned 'a | Threw failure

fun on :: "lifecycle \<Rightarrow> world \<Rightarrow> world" where
  "on Ready w = w\<lparr>redisReady := True\<rparr>"
| "on End w = w\<lparr>redisReady := False\<rparr>"
| "on Error w = w\<lparr>redisReady := False\<rparr>"

definition next_tick :: "world \<Rightarrow> tick" where
  "next_tick w = (case script w of [] \<Rightarrow> \<lparr>rejects = False, events = []\<rparr> | t # _ \<Rightarrow> t)"

text \<open>The handler resumes: the events of the tick have run, and the tick is used up.\<close>

definition resume :: "world \<Rightarrow> world" where
  "resume w = (foldl (\<lambda>v e. on e v) w (events (next_tick w)))\<lparr>script := tl (script w)\<rparr>"

subsection \<open>The Redis client\<close>

definition redis_get :: "string \<Rightarrow> world \<Rightarrow> string option completion \<times> world" where
  "redis_get key w =
     (let w1 = w\<lparr>calls := calls w @ [RedisGet key]\<rparr>
      in if rejects (next_tick w) then (Threw ClientRejection, resume w1)
         else (Returned (map_option fst (redis w key)), resume w1))"

definition redis_set :: "string \<Rightarrow> string \<Rightarrow> number \<Rightarrow> world \<Rightarrow> unit completion \<times> world" where
  "redis_set key val ex w =
     (let w1 = w\<lparr>calls := calls w @ [RedisSet key val ex]\<rparr>
      in if rejects (next_tick w) then (Threw ClientRejection, resume w1)
         else (Returned (), resume (w1\<lparr>redis := (redis w)(key \<mapsto> (val, ex))\<rparr>)))"

definition redis_del :: "string \<Rightarrow> world \<Rightarrow> unit completion \<times> world" where
  "redis_del key w =
     (let w1 = w\<lparr>calls := calls w @ [RedisDel key]\<rparr>
      in if rejects (next_tick w) then (Threw ClientRejection, resume w1)
         else (Returned (), resume (w1\<lparr>redis := (redis w)(key := None)\<rparr>)))"

subsection \<open>The pools\<close>

text \<open>\<^verbatim>\<open>queryRead("SELECT * FROM products WHERE id = $1", [id])\<close> on the replica.\<close>

definition queryRead :: "int \<Rightarrow> world \<Rightarrow> product list completion \<times> world" where
  "queryRead n w =
     (let w1 = w\<lparr>calls := calls w @ [ReadSelect n]\<rparr>
      in if rejects (next_tick w) then (Threw ClientRejection, resume w1)
         else (Returned (case replica w n of None \<Rightarrow> [] | Some r \<Rightarrow> [r]), resume w1))"

text \<open>
  \<^verbatim>\<open>writePool.query("UPDATE products SET name=$1, price_cents=$2, updated_at=NOW()
  WHERE id=$3 RETURNING *", [name, price_cents, id])\<close> on the primary.
\<close>

definition writePool_query :: "string \<Rightarrow> int \<Rightarrow> int \<Rightarrow> world \<Rightarrow> product list completion \<times> world" where
  "writePool_query nm price n w =
     (let w1 = w\<lparr>calls := calls w @ [WriteUpdate nm price n]\<rparr>
      in if rejects (next_tick w) then (Threw ClientRejection, resume w1)
         else (case primary w n of
                 None \<Rightarrow> (Returned [], resume w1)
               | Some r \<Rightarrow>
                   (let r1 = r\<lparr>name := nm, price_cents := price, updated_at := now w\<rparr>
                    in (Returned [r1], resume (w1\<lparr>primary := (primary w)(n \<mapsto> r1)\<rparr>)))))"

section \<open>The cache wrappers\<close>

text \<open>
  \<^verbatim>\<open>ensureRedis(res)\<close>: \<open>Some r\<close> when it answered \<open>r\<close> on \<^verbatim>\<open>res\<close> and returned
  \<^verbatim>\<open>false\<close>, \<open>None\<close> when it returned \<^verbatim>\<open>true\<close>.
\<close>

definition ensureRedis :: "world \<Rightarrow> 'j response option" where
  "ensureRedis w =
     (if \<not> redisReady w
      then Some \<lparr>status = 503, x_cache = None, body = ErrorBody ''Redis unavailable''\<rparr>
      else None)"

definition cacheGet :: "string \<Rightarrow> world \<Rightarrow> string option completion \<times> world" where
  "cacheGet key w =
     (if \<not> redisReady w then (Threw (ErrorObject ''Redis unavailable''), w)
      else redis_get key w)"

definition cacheSet :: "string \<Rightarrow> string \<Rightarrow> number \<Rightarrow> world \<Rightarrow> unit completion \<times> world" where
  "cacheSet key val ttlSeconds w =
     (if \<not> redisReady w then (Threw (ErrorObject ''Redis unavailable''), w)
      else redis_set key val ttlSeconds w)"

definition cacheDel :: "string \<Rightarrow> world \<Rightarrow> unit completion \<times> world" where
  "cacheDel key w =
     (if \<not> redisReady w then (Threw (ErrorObject ''Redis unavailable''), w)
      else redis_del key w)"

section \<open>Routes\<close>

text \<open>\<^verbatim>\<open>GET /health\<close>: \<^verbatim>\<open>res.json({ ok: true, redis: redisReady })\<close>.\<close>

definition health :: "world \<Rightarrow> 'j reply \<times> world" where
  "health w =
     (Sent \<lparr>status = 200, x_cache = None,
            body = ObjectBody [(''ok'', True), (''redis'', redisReady w)]\<rparr>, w)"

text \<open>JavaScript truthiness of what \<^verbatim>\<open>redis.get\<close> returns and of a \<^verbatim>\<open>name\<close>.\<close>

definition truthy :: "string option \<Rightarrow> bool" where
  "truthy v = (case v of None \<Rightarrow> False | Some s \<Rightarrow> s \<noteq> [])"

text \<open>
  \<^verbatim>\<open>GET /products/:id\<close>. \<^verbatim>\<open>Number.isFinite(id)\<close> is false for \<open>NaN\<close> and true for an
  \<open>Integral\<close> Number. The header \<^verbatim>\<open>X-Cache: HIT\<close> is set before \<^verbatim>\<open>JSON.parse\<close> runs
  inside the \<^verbatim>\<open>try\<close>, so a cached text that does not parse gives the 503 of the
  \<^verbatim>\<open>catch\<close> with that header.
\<close>

definition get_product :: "'j platform \<Rightarrow> string \<Rightarrow> world \<Rightarrow> 'j reply \<times> world" where
  "get_product js id_param w =
    (case ensureRedis w of
       Some r \<Rightarrow> (Sent r, w)
     | None \<Rightarrow>
        (case parseInt id_param of
           NaN \<Rightarrow> (Sent \<lparr>status = 400, x_cache = None, body = ErrorBody ''Invalid id''\<rparr>, w)
         | Fractional \<Rightarrow> (Unmodelled, w)
         | Huge \<Rightarrow> (Unmodelled, w)
         | Integral n \<Rightarrow>
            (let key = ''product:'' @ Number_toString n in
             case cacheGet key w of
               (Threw e, w1) \<Rightarrow>
                 (Sent \<lparr>status = 503, x_cache = None, body = ErrorBody ''Redis unavailable''\<rparr>, w1)
             | (Returned cached, w1) \<Rightarrow>
                 if truthy cached then
                   (case JSON_parse js (the cached) of
                      None \<Rightarrow>
                        (Sent \<lparr>status = 503, x_cache = Some ''HIT'',
                               body = ErrorBody ''Redis unavailable''\<rparr>, w1)
                    | Some v \<Rightarrow>
                        (Sent \<lparr>status = 200, x_cache = Some ''HIT'', body = ParsedBody v\<rparr>, w1))
                 else
                   (case queryRead n w1 of
                      (Threw e, w2) \<Rightarrow> (Rejected, w2)
                    | (Returned [], w2) \<Rightarrow>
                        (Sent \<lparr>status = 404, x_cache = None, body = ErrorBody ''Not found''\<rparr>, w2)
                    | (Returned (row # _), w2) \<Rightarrow>
                        (case cacheSet key (JSON_stringify js row) (CACHE_TTL_SECONDS js) w2 of
                           (Threw e, w3) \<Rightarrow>
                             (Sent \<lparr>status = 503, x_cache = None,
                                    body = ErrorBody ''Redis unavailable''\<rparr>, w3)
                         | (Returned _, w3) \<Rightarrow>
                             (Sent \<lparr>status = 200, x_cache = Some ''MISS'',
                                    body = RowBody row\<rparr>, w3))))))"

text \<open>
  \<^verbatim>\<open>PUT /products/:id\<close>. \<^verbatim>\<open>!name || !Number.isInteger(price_cents)\<close> looks at the
  name first.
\<close>

definition put_product :: "'j platform \<Rightarrow> string \<Rightarrow> put_body option \<Rightarrow> world \<Rightarrow> 'j reply \<times> world" where
  "put_product js id_param req_body w =
    (case ensureRedis w of
       Some r \<Rightarrow> (Sent r, w)
     | None \<Rightarrow>
        (case parseInt id_param of
           NaN \<Rightarrow> (Sent \<lparr>status = 400, x_cache = None, body = ErrorBody ''Invalid id''\<rparr>, w)
         | Fractional \<Rightarrow> (Unmodelled, w)
         | Huge \<Rightarrow> (Unmodelled, w)
         | Integral n \<Rightarrow>
            (let b = (case req_body of None \<Rightarrow> \<lparr>body_name = None, body_price_cents = None\<rparr>
                                     | Some x \<Rightarrow> x);
                 invalid = (Sent \<lparr>status = 400, x_cache = None,
                                   body = ErrorBody ''Expected { name, price_cents:int }''\<rparr>, w)
             in if \<not> truthy (body_name b) then invalid
                else
                  (case body_price_cents b of
                     None \<Rightarrow> invalid
                   | Some NaN \<Rightarrow> invalid
                   | Some Fractional \<Rightarrow> invalid
                   | Some Huge \<Rightarrow> (Unmodelled, w)
                   | Some (Integral price) \<Rightarrow>
                      (case writePool_query (the (body_name b)) price n w of
                         (Threw e, w1) \<Rightarrow> (Rejected, w1)
                       | (Returned [], w1) \<Rightarrow>
                           (Sent \<lparr>status = 404, x_cache = None, body = ErrorBody ''Not found''\<rparr>, w1)
                       | (Returned (row # _), w1) \<Rightarrow>
                           (case cacheDel (''product:'' @ Number_toString n) w1 of
                              (Threw e, w2) \<Rightarrow>
                                (Sent \<lparr>status = 503, x_cache = None,
                                       body = ErrorBody ''Redis unavailable''\<rparr>, w2)
                            | (Returned _, w2) \<Rightarrow>
                                (Sent \<lparr>status = 200, x_cache = None, body = RowBody row\<rparr>, w2)))))))"

section \<open>Observing a run\<close>

text \<open>The tick that the environment plays at the \<open>k\<close>-th \<^verbatim>\<open>await\<close> from now.\<close>

definition tick_at :: "nat \<Rightarrow> world \<Rightarrow> tick" where
  "tick_at k w = next_tick (w\<lparr>script := drop k (script w)\<rparr>)"

text \<open>The calls issued between two states of the process.\<close>

definition issued :: "world \<Rightarrow> world \<Rightarrow> io list" where
  "issued w w' = drop (length (calls w)) (calls w')"

text \<open>
  The names of the properties of the object a reply carries, when the source writes the
  object out; \<open>None\<close> for a row or a parsed value, whose properties the source does not
  fix, and when no response was sent.
\<close>

definition property_names :: "'j reply \<Rightarrow> string list option" where
  "property_names r =
     (case r of
        Sent x \<Rightarrow>
          (case body x of
             ErrorBody m \<Rightarrow> Some [''error'']
           | ObjectBody ps \<Rightarrow> Some (map fst ps)
           | RowBody row \<Rightarrow> None
           | ParsedBody v \<Rightarrow> None)
      | Rejected \<Rightarrow> None
      | Unmodelled \<Rightarrow> None)"

text \<open>The Redis key a call names, if it is a call to Redis.\<close>

fun cache_key :: "io \<Rightarrow> string option" where
  "cache_key (RedisGet k) = Some k"
| "cache_key (RedisSet k v ex) = Some k"
| "cache_key (RedisDel k) = Some k"
| "cache_key (ReadSelect n) = None"
| "cache_key (WriteUpdate nm p n) = None"

section \<open>Closed examples\<close>

text \<open>
  A platform for closed examples: a parsed value is kept as the text it was parsed from,
  and a row is printed with its four columns in order.
\<close>

definition quoted :: "string \<Rightarrow> string" where
  "quoted s = CHR 0x22 # s @ [CHR 0x22]"

definition text_platform :: "string platform" where
  "text_platform =
     \<lparr>JSON_parse = (\<lambda>s. if s = [] then None else Some s),
      JSON_stringify =
        (\<lambda>r. ''{'' @ quoted ''id'' @ '':'' @ Number_toString (pid r) @ '',''
             @ quoted ''name'' @ '':'' @ quoted (name r) @ '',''
             @ quoted ''price_cents'' @ '':'' @ Number_toString (price_cents r) @ '',''
             @ quoted ''updated_at'' @ '':'' @ Number_toString (int (updated_at r)) @ ''}''),
      env_CACHE_TTL_SECONDS = None\<rparr>"

definition widget :: product where
  "widget = \<lparr>pid = 7, name = ''Widget'', price_cents = 999, updated_at = 1\<rparr>"

definition widget2 :: put_body where
  "widget2 = \<lparr>body_name = Some ''Widget2'', body_price_cents = Some (Integral 1099)\<rparr>"

text \<open>Product 7 is on both databases, nothing is cached, and the environment is quiet.\<close>

definition cache_down :: world where
  "cache_down =
     \<lparr>redisReady = False, redis = Map.empty, replica = [7 \<mapsto> widget],
      primary = [7 \<mapsto> widget], now = 2, calls = [], script = []\<rparr>"

definition cache_up :: world where
  "cache_up = cache_down\<lparr>redisReady := True\<rparr>"

text \<open>The same, but the Redis connection ends during the first \<^verbatim>\<open>await\<close>.\<close>

definition cache_dropping :: world where
  "cache_dropping = cache_up\<lparr>script := [\<lparr>rejects = False, events = [End]\<rparr>]\<rparr>"

section \<open>Facts about the collaborators\<close>

lemmas samples = cache_down_def cache_up_def cache_dropping_def widget_def widget2_def
  text_platform_def quoted_def

lemmas parse_defs = parseInt_def StrWhiteSpaceChar_def isDigit_def mathInt_def digitValue_def
  MAX_SAFE_INTEGER_def

lemmas io_defs = cacheGet_def cacheSet_def cacheDel_def redis_get_def redis_set_def redis_del_def
  queryRead_def writePool_query_def

lemmas eval_defs = io_defs Let_def next_tick_def resume_def tick_at_def truthy_def
  Number_toString_def digits.simps CACHE_TTL_SECONDS_def

lemma on_fields [simp]:
  "redis (on e w) = redis w" "replica (on e w) = replica w" "primary (on e w) = primary w"
  "now (on e w) = now w" "calls (on e w) = calls w" "script (on e w) = script w"
  by (cases e; simp)+

lemma foldl_on_fields [simp]:
  "redis (foldl (\<lambda>v e. on e v) w es) = redis w"
  "replica (foldl (\<lambda>v e. on e v) w es) = replica w"
  "primary (foldl (\<lambda>v e. on e v) w es) = primary w"
  "now (foldl (\<lambda>v e. on e v) w es) = now w"
  "calls (foldl (\<lambda>v e. on e v) w es) = calls w"
  "script (foldl (\<lambda>v e. on e v) w es) = script w"
  by (induction es arbitrary: w; simp)+

lemma resume_fields [simp]:
  "redis (resume w) = redis w" "replica (resume w) = replica w" "primary (resume w) = primary w"
  "now (resume w) = now w" "calls (resume w) = calls w" "script (resume w) = tl (script w)"
  by (simp_all add: resume_def)

lemma next_tick_resume [simp]: "next_tick (resume w) = tick_at 1 w"
  by (simp add: next_tick_def tick_at_def resume_def drop_Suc)

lemma next_tick_update [simp]:
  "next_tick (w\<lparr>calls := c\<rparr>) = next_tick w"
  "next_tick (w\<lparr>redis := r\<rparr>) = next_tick w"
  "next_tick (w\<lparr>primary := p\<rparr>) = next_tick w"
  by (simp_all add: next_tick_def)

lemma tick_at_update [simp]:
  "tick_at k (w\<lparr>calls := c\<rparr>) = tick_at k w"
  "tick_at k (w\<lparr>redis := r\<rparr>) = tick_at k w"
  "tick_at k (w\<lparr>primary := p\<rparr>) = tick_at k w"
  by (simp_all add: tick_at_def next_tick_def)

lemma tick_at_0 [simp]: "tick_at 0 w = next_tick w"
  by (simp add: tick_at_def next_tick_def)

lemma parseInt_7: "parseInt ''7'' = Integral 7"
  by (simp add: parse_defs)

lemma parseInt_8: "parseInt ''8'' = Integral 8"
  by (simp add: parse_defs)

lemma parseInt_abc: "parseInt ''abc'' = NaN"
  by (simp add: parse_defs)

lemma toString_7: "Number_toString 7 = ''7''"
  by (simp add: Number_toString_def digits.simps)

lemma toString_8: "Number_toString 8 = ''8''"
  by (simp add: Number_toString_def digits.simps)

lemma get_7_calls:
  "calls (snd (get_product text_platform ''7'' cache_up)) =
     [RedisGet ''product:7'', ReadSelect 7,
      RedisSet ''product:7'' (JSON_stringify text_platform widget) (Integral 60)]"
  by (simp add: get_product_def ensureRedis_def parseInt_7 eval_defs samples parse_defs)

lemma put_7_calls:
  "calls (snd (put_product text_platform ''7'' (Some widget2) cache_up)) =
     [WriteUpdate ''Widget2'' 1099 7, RedisDel ''product:7'']"
  by (simp add: put_product_def ensureRedis_def parseInt_7 eval_defs samples)

section \<open>The liveness gate\<close>

text \<open>
  C1. With \<^verbatim>\<open>redisReady\<close> false, each of \<^verbatim>\<open>cacheGet\<close>, \<^verbatim>\<open>cacheSet\<close> and
  \<^verbatim>\<open>cacheDel\<close> throws the error "Redis unavailable" and leaves the process as it was,
  so no Redis call is issued;
  and \<^verbatim>\<open>GET /products/:id\<close> and \<^verbatim>\<open>PUT /products/:id\<close> answer 503
  "Redis unavailable", again with the process unchanged: neither pool has been queried.
\<close>

theorem cache_down_fails_without_io:
  assumes "\<not> redisReady w"
  shows "cacheGet key w = (Threw (ErrorObject ''Redis unavailable''), w)
       \<and> cacheSet key val ttlSeconds w = (Threw (ErrorObject ''Redis unavailable''), w)
       \<and> cacheDel key w = (Threw (ErrorObject ''Redis unavailable''), w)
       \<and> get_product js id_param w =
           (Sent \<lparr>status = 503, x_cache = None, body = ErrorBody ''Redis unavailable''\<rparr>, w)
       \<and> put_product js id_param req_body w =
           (Sent \<lparr>status = 503, x_cache = None, body = ErrorBody ''Redis unavailable''\<rparr>, w)"
  using assms
  by (simp add: cacheGet_def cacheSet_def cacheDel_def get_product_def put_product_def
      ensureRedis_def)

theorem cache_down_fails_without_io_witness:
  "\<not> redisReady cache_down
   \<and> cacheGet ''product:7'' cache_down = (Threw (ErrorObject ''Redis unavailable''), cache_down)
   \<and> cacheSet ''product:7'' ''{}'' (Integral 60) cache_down = (Threw (ErrorObject ''Redis unavailable''), cache_down)
   \<and> cacheDel ''product:7'' cache_down = (Threw (ErrorObject ''Redis unavailable''), cache_down)
   \<and> calls (snd (get_product text_platform ''7'' cache_down)) = []
   \<and> fst (put_product text_platform ''7'' (Some widget2) cache_down) =
       Sent \<lparr>status = 503, x_cache = None, body = ErrorBody ''Redis unavailable''\<rparr>"
proof -
  have down: "\<not> redisReady cache_down"
    by (simp add: cache_down_def)
  from cache_down_fails_without_io [OF down, of "''product:7''" "''{}''" "Integral 60" text_platform "''7''"
      "Some widget2"] down
  show ?thesis
    by (simp add: cache_down_def)
qed

text \<open>
  C10. On both routes the gate comes before any validation. With \<^verbatim>\<open>redisReady\<close> false
  every request, whatever its id and body, is answered 503 and nothing else happens. The
  same requests meet the validation only when the flag is true: an id that does not parse
  then gives 400 "Invalid id" on both routes, and a \<^verbatim>\<open>PUT\<close> with a parsable id and no
  body gives 400 for the body.
\<close>

theorem gate_precedes_validation:
  "(\<not> redisReady w \<longrightarrow>
      get_product js id_param w =
        (Sent \<lparr>status = 503, x_cache = None, body = ErrorBody ''Redis unavailable''\<rparr>, w)
    \<and> put_product js id_param req_body w =
        (Sent \<lparr>status = 503, x_cache = None, body = ErrorBody ''Redis unavailable''\<rparr>, w))
   \<and> (redisReady w \<and> parseInt id_param = NaN \<longrightarrow>
      get_product js id_param w =
        (Sent \<lparr>status = 400, x_cache = None, body = ErrorBody ''Invalid id''\<rparr>, w)
    \<and> put_product js id_param req_body w =
        (Sent \<lparr>status = 400, x_cache = None, body = ErrorBody ''Invalid id''\<rparr>, w))
   \<and> (redisReady w \<and> (\<exists>n. parseInt id_param = Integral n) \<and> req_body = None \<longrightarrow>
      put_product js id_param req_body w =
        (Sent \<lparr>status = 400, x_cache = None,
               body = ErrorBody ''Expected { name, price_cents:int }''\<rparr>, w))"
  by (auto simp add: get_product_def put_product_def ensureRedis_def truthy_def)

theorem gate_precedes_validation_witness:
  "\<not> redisReady cache_down \<and> parseInt ''abc'' = NaN
   \<and> get_product text_platform ''abc'' cache_down =
        (Sent \<lparr>status = 503, x_cache = None, body = ErrorBody ''Redis unavailable''\<rparr>,
         cache_down)
   \<and> put_product text_platform ''abc'' None cache_down =
        (Sent \<lparr>status = 503, x_cache = None, body = ErrorBody ''Redis unavailable''\<rparr>,
         cache_down)
   \<and> get_product text_platform ''abc'' cache_up =
        (Sent \<lparr>status = 400, x_cache = None, body = ErrorBody ''Invalid id''\<rparr>, cache_up)
   \<and> put_product text_platform ''abc'' None cache_up =
        (Sent \<lparr>status = 400, x_cache = None, body = ErrorBody ''Invalid id''\<rparr>, cache_up)
   \<and> put_product text_platform ''7'' None cache_up =
        (Sent \<lparr>status = 400, x_cache = None,
               body = ErrorBody ''Expected { name, price_cents:int }''\<rparr>, cache_up)"
proof -
  have down: "\<not> redisReady cache_down" and up: "redisReady cache_up"
    by (simp_all add: cache_down_def cache_up_def)
  from gate_precedes_validation [of cache_down text_platform "''abc''" None]
    gate_precedes_validation [of cache_up text_platform "''abc''" None]
    gate_precedes_validation [of cache_up text_platform "''7''" None]
    down up parseInt_abc parseInt_7
  show ?thesis by simp
qed

section \<open>Validation of the id\<close>

text \<open>
  C2, as the code has it. The id is what \<^verbatim>\<open>parseInt(req.params.id, 10)\<close> makes of the
  parameter, and the check is that the result is finite. An id that does not parse gets
  400 "Invalid id" with no call to Redis or to a pool, provided the liveness flag is true;
  with the flag false the gate has answered 503 before the id is looked at. In both cases
  the process is unchanged.
\<close>

theorem invalid_id_rejected_before_io:
  assumes "parseInt id_param = NaN"
  shows "get_product js id_param w =
     (if redisReady w
      then (Sent \<lparr>status = 400, x_cache = None, body = ErrorBody ''Invalid id''\<rparr>, w)
      else (Sent \<lparr>status = 503, x_cache = None, body = ErrorBody ''Redis unavailable''\<rparr>, w))"
  using assms by (simp add: get_product_def ensureRedis_def)

theorem invalid_id_rejected_before_io_witness:
  "parseInt ''abc'' = NaN
   \<and> get_product text_platform ''abc'' cache_up =
       (Sent \<lparr>status = 400, x_cache = None, body = ErrorBody ''Invalid id''\<rparr>, cache_up)"
proof -
  have up: "redisReady cache_up"
    by (simp add: cache_down_def cache_up_def)
  from invalid_id_rejected_before_io [OF parseInt_abc, of text_platform cache_up] up parseInt_abc
  show ?thesis by simp
qed

text \<open>
  The claim as the specification words it fails twice. With the flag false the unparsable
  id \<^verbatim>\<open>abc\<close> is answered 503, not 400: the gate is first. And \<^verbatim>\<open>-5\<close>, which is not a
  positive integer, passes the check: the route goes on to Redis and to the replica and
  answers 404.
\<close>

theorem id_validation_counterexample:
  "parseInt ''abc'' = NaN
   \<and> fst (get_product text_platform ''abc'' cache_down) =
       Sent \<lparr>status = 503, x_cache = None, body = ErrorBody ''Redis unavailable''\<rparr>
   \<and> get_product text_platform ''-5'' cache_up =
       (Sent \<lparr>status = 404, x_cache = None, body = ErrorBody ''Not found''\<rparr>,
        cache_up\<lparr>calls := [RedisGet ''product:-5'', ReadSelect (- 5)]\<rparr>)"
  by (simp add: get_product_def ensureRedis_def parse_defs eval_defs samples)

section \<open>The read path\<close>

text \<open>
  C3. Take an id that parses, the flag true, and a \<^verbatim>\<open>redis.get\<close> that completes. If the
  key of the id holds a text that is not empty and that \<^verbatim>\<open>JSON.parse\<close> accepts, the
  route answers 200 with \<^verbatim>\<open>X-Cache: HIT\<close> and the parsed value, and the only call it
  issues is that \<^verbatim>\<open>redis.get\<close>: the replica is not queried. This holds in particular
  in the state a successful \<^verbatim>\<open>cacheSet\<close> of that text under that key has just produced,
  so the value read back is the parse of exactly the text stored.
\<close>

theorem cached_entity_is_hit:
  assumes "redisReady w" and "parseInt id_param = Integral n"
    and "\<not> rejects (next_tick w)"
    and "text \<noteq> []" and "JSON_parse js text = Some v"
  shows "redis w (''product:'' @ Number_toString n) = Some (text, ex)
         \<or> cacheSet (''product:'' @ Number_toString n) text ex w0 = (Returned (), w)
       \<longrightarrow> fst (get_product js id_param w) =
             Sent \<lparr>status = 200, x_cache = Some ''HIT'', body = ParsedBody v\<rparr>
         \<and> calls (snd (get_product js id_param w)) =
             calls w @ [RedisGet (''product:'' @ Number_toString n)]
         \<and> redis (snd (get_product js id_param w)) = redis w"
proof -
  let ?key = "''product:'' @ Number_toString n"
  have stored: "redis w ?key = Some (text, ex)"
    if "cacheSet ?key text ex w0 = (Returned (), w)"
    using that
    by (auto simp add: cacheSet_def redis_set_def Let_def split: if_splits)
  have hit: "get_product js id_param w =
      (Sent \<lparr>status = 200, x_cache = Some ''HIT'', body = ParsedBody v\<rparr>,
       resume (w\<lparr>calls := calls w @ [RedisGet ?key]\<rparr>))"
    if "redis w ?key = Some (text, ex)"
    using assms that
    by (simp add: get_product_def ensureRedis_def cacheGet_def redis_get_def truthy_def Let_def)
  show ?thesis
  proof
    assume "redis w ?key = Some (text, ex) \<or> cacheSet ?key text ex w0 = (Returned (), w)"
    with stored have "redis w ?key = Some (text, ex)"
      by blast
    from hit [OF this] show "fst (get_product js id_param w) =
             Sent \<lparr>status = 200, x_cache = Some ''HIT'', body = ParsedBody v\<rparr>
         \<and> calls (snd (get_product js id_param w)) = calls w @ [RedisGet ?key]
         \<and> redis (snd (get_product js id_param w)) = redis w"
      by simp
  qed
qed

theorem cached_entity_is_hit_witness:
  "cacheSet ''product:7'' (JSON_stringify text_platform widget) (Integral 60) cache_up =
     (Returned (),
      cache_up\<lparr>calls := [RedisSet ''product:7'' (JSON_stringify text_platform widget) (Integral 60)],
               redis := [''product:7'' \<mapsto> (JSON_stringify text_platform widget, Integral 60)]\<rparr>)
   \<and> fst (get_product text_platform ''7''
        (snd (cacheSet ''product:7'' (JSON_stringify text_platform widget) (Integral 60) cache_up))) =
       Sent \<lparr>status = 200, x_cache = Some ''HIT'',
             body = ParsedBody (JSON_stringify text_platform widget)\<rparr>
   \<and> calls (snd (get_product text_platform ''7''
        (snd (cacheSet ''product:7'' (JSON_stringify text_platform widget) (Integral 60) cache_up)))) =
       [RedisSet ''product:7'' (JSON_stringify text_platform widget) (Integral 60), RedisGet ''product:7'']"
proof -
  let ?text = "JSON_stringify text_platform widget"
  let ?w = "cache_up\<lparr>calls := [RedisSet ''product:7'' ?text (Integral 60)],
        redis := [''product:7'' \<mapsto> (?text, Integral 60)]\<rparr>"
  have st: "cacheSet ''product:7'' ?text (Integral 60) cache_up = (Returned (), ?w)"
    by (simp add: cacheSet_def redis_set_def Let_def next_tick_def resume_def cache_up_def
        cache_down_def)
  have h: "redisReady ?w" "\<not> rejects (next_tick ?w)" "?text \<noteq> []"
    "JSON_parse text_platform ?text = Some ?text"
    by (simp_all add: samples next_tick_def)
  from cached_entity_is_hit [OF h(1) parseInt_7 h(2-4), where ex = "Integral 60" and ?w0.0 = cache_up] st
  show ?thesis
    by (simp add: toString_7)
qed

text \<open>
  C4. Take an id that parses, the flag true, no entry under the key of the id and no row
  with that id on the replica, and a \<^verbatim>\<open>redis.get\<close> and a query that complete. The route
  answers 404 "Not found"; it has issued the lookup and the query and nothing else, and
  Redis holds what it held before: no entry was created.
\<close>

theorem absent_entity_not_found:
  assumes "redisReady w" and "parseInt id_param = Integral n"
    and "redis w (''product:'' @ Number_toString n) = None"
    and "replica w n = None"
    and "\<not> rejects (tick_at 0 w)" and "\<not> rejects (tick_at 1 w)"
  shows "fst (get_product js id_param w) =
           Sent \<lparr>status = 404, x_cache = None, body = ErrorBody ''Not found''\<rparr>
       \<and> redis (snd (get_product js id_param w)) = redis w
       \<and> calls (snd (get_product js id_param w)) =
           calls w @ [RedisGet (''product:'' @ Number_toString n), ReadSelect n]"
  using assms
  by (simp add: get_product_def ensureRedis_def cacheGet_def redis_get_def queryRead_def
      truthy_def Let_def)

theorem absent_entity_not_found_witness:
  "parseInt ''8'' = Integral 8
   \<and> redis cache_up ''product:8'' = None \<and> replica cache_up 8 = None
   \<and> fst (get_product text_platform ''8'' cache_up) =
       Sent \<lparr>status = 404, x_cache = None, body = ErrorBody ''Not found''\<rparr>
   \<and> redis (snd (get_product text_platform ''8'' cache_up)) = Map.empty
   \<and> calls (snd (get_product text_platform ''8'' cache_up)) =
       [RedisGet ''product:8'', ReadSelect 8]"
proof -
  have h: "redisReady cache_up" "redis cache_up (''product:'' @ Number_toString 8) = None"
    "replica cache_up 8 = None" "\<not> rejects (tick_at 0 cache_up)"
    "\<not> rejects (tick_at 1 cache_up)"
    by (simp_all add: samples tick_at_def next_tick_def)
  from absent_entity_not_found [OF h(1) parseInt_8 h(2-5), of text_platform] h parseInt_8
  show ?thesis
    by (simp add: toString_8 samples)
qed

text \<open>
  C5. Take a run of the route that has missed in the cache (\<^verbatim>\<open>cacheGet\<close> returned
  nothing, or the empty text) and has got a row from the replica. The route then calls
  \<^verbatim>\<open>cacheSet\<close> with the key, the row's text and \<^verbatim>\<open>CACHE_TTL_SECONDS\<close>. If that call
  throws, which it does exactly when the flag has become false meanwhile or
  \<^verbatim>\<open>redis.set\<close> rejects, the answer is 503; only if it returns is the answer 200 with
  \<^verbatim>\<open>X-Cache: MISS\<close> and the row. Either way the replica has been queried already, and
  while the flag is true the \<^verbatim>\<open>redis.set\<close> issued carries the configured TTL.
\<close>

theorem repopulate_failure_fails_read:
  assumes "redisReady w" and "parseInt id_param = Integral n"
    and "cacheGet (''product:'' @ Number_toString n) w = (Returned cached, w1)"
    and "\<not> truthy cached"
    and "queryRead n w1 = (Returned (row # rows), w2)"
  shows "get_product js id_param w =
          (case cacheSet (''product:'' @ Number_toString n) (JSON_stringify js row)
                  (CACHE_TTL_SECONDS js) w2 of
             (Threw e, w3) \<Rightarrow>
               (Sent \<lparr>status = 503, x_cache = None, body = ErrorBody ''Redis unavailable''\<rparr>, w3)
           | (Returned u, w3) \<Rightarrow>
               (Sent \<lparr>status = 200, x_cache = Some ''MISS'', body = RowBody row\<rparr>, w3))
       \<and> ((\<exists>e. fst (cacheSet (''product:'' @ Number_toString n) (JSON_stringify js row)
                  (CACHE_TTL_SECONDS js) w2) = Threw e)
            \<longleftrightarrow> \<not> redisReady w2 \<or> rejects (next_tick w2))
       \<and> (redisReady w2 \<longrightarrow>
            calls (snd (get_product js id_param w)) =
              calls w @ [RedisGet (''product:'' @ Number_toString n), ReadSelect n,
                         RedisSet (''product:'' @ Number_toString n) (JSON_stringify js row)
                           (CACHE_TTL_SECONDS js)])
       \<and> ReadSelect n \<in> set (calls (snd (get_product js id_param w)))"
proof -
  let ?key = "''product:'' @ Number_toString n"
  let ?set = "cacheSet ?key (JSON_stringify js row) (CACHE_TTL_SECONDS js) w2"
  have run: "get_product js id_param w =
          (case ?set of
             (Threw e, w3) \<Rightarrow>
               (Sent \<lparr>status = 503, x_cache = None, body = ErrorBody ''Redis unavailable''\<rparr>, w3)
           | (Returned u, w3) \<Rightarrow>
               (Sent \<lparr>status = 200, x_cache = Some ''MISS'', body = RowBody row\<rparr>, w3))"
    using assms by (simp add: get_product_def ensureRedis_def Let_def)
  have fails: "(\<exists>e. fst ?set = Threw e) \<longleftrightarrow> \<not> redisReady w2 \<or> rejects (next_tick w2)"
    by (simp add: cacheSet_def redis_set_def Let_def)
  have c1: "calls w1 = calls w @ [RedisGet ?key]"
    using assms(1,3) by (auto simp add: cacheGet_def redis_get_def Let_def split: if_splits)
  have c2: "calls w2 = calls w1 @ [ReadSelect n]"
    using assms(5) by (auto simp add: queryRead_def Let_def split: if_splits)
  have c3: "calls (snd ?set) = calls w2 @ (if redisReady w2 then
       [RedisSet ?key (JSON_stringify js row) (CACHE_TTL_SECONDS js)] else [])"
    by (simp add: cacheSet_def redis_set_def Let_def)
  have snd_run: "snd (get_product js id_param w) = snd ?set"
    unfolding run by (simp split: prod.splits completion.splits)
  show ?thesis
    using run fails c1 c2 c3 snd_run by simp
qed

theorem repopulate_failure_fails_read_witness:
  "get_product text_platform ''7'' cache_up =
     (Sent \<lparr>status = 200, x_cache = Some ''MISS'', body = RowBody widget\<rparr>,
      cache_up\<lparr>calls := [RedisGet ''product:7'', ReadSelect 7,
                           RedisSet ''product:7'' (JSON_stringify text_platform widget) (Integral 60)],
               redis := [''product:7'' \<mapsto> (JSON_stringify text_platform widget, Integral 60)]\<rparr>)
   \<and> get_product text_platform ''7'' cache_dropping =
     (Sent \<lparr>status = 503, x_cache = None, body = ErrorBody ''Redis unavailable''\<rparr>,
      cache_down\<lparr>calls := [RedisGet ''product:7'', ReadSelect 7]\<rparr>)"
proof -
  let ?text = "JSON_stringify text_platform widget"
  let ?got = "[RedisGet ''product:7'']"
  let ?read = "[RedisGet ''product:7'', ReadSelect 7]"
  have up: "redisReady cache_up" "redisReady cache_dropping"
    by (simp_all add: samples)
  have g1: "cacheGet ''product:7'' cache_up = (Returned None, cache_up\<lparr>calls := ?got\<rparr>)"
    by (simp add: cacheGet_def redis_get_def Let_def next_tick_def resume_def cache_up_def
        cache_down_def)
  have q1: "queryRead 7 (cache_up\<lparr>calls := ?got\<rparr>) =
      (Returned [widget], cache_up\<lparr>calls := ?read\<rparr>)"
    by (simp add: queryRead_def Let_def next_tick_def resume_def cache_up_def cache_down_def)
  have s1: "cacheSet ''product:7'' ?text (Integral 60) (cache_up\<lparr>calls := ?read\<rparr>) =
      (Returned (),
       cache_up\<lparr>calls := [RedisGet ''product:7'', ReadSelect 7, RedisSet ''product:7'' ?text (Integral 60)],
                redis := [''product:7'' \<mapsto> (?text, Integral 60)]\<rparr>)"
    by (simp add: cacheSet_def redis_set_def Let_def next_tick_def resume_def cache_up_def
        cache_down_def)
  have g2: "cacheGet ''product:7'' cache_dropping = (Returned None, cache_down\<lparr>calls := ?got\<rparr>)"
    by (simp add: cacheGet_def redis_get_def Let_def next_tick_def resume_def
        cache_dropping_def cache_up_def cache_down_def)
  have q2: "queryRead 7 (cache_down\<lparr>calls := ?got\<rparr>) =
      (Returned [widget], cache_down\<lparr>calls := ?read\<rparr>)"
    by (simp add: queryRead_def Let_def next_tick_def resume_def cache_down_def)
  have s2: "cacheSet ''product:7'' ?text (Integral 60) (cache_down\<lparr>calls := ?read\<rparr>) =
      (Threw (ErrorObject ''Redis unavailable''), cache_down\<lparr>calls := ?read\<rparr>)"
    by (simp add: cacheSet_def cache_down_def)
  have miss: "\<not> truthy None"
    by (simp add: truthy_def)
  have ttl: "CACHE_TTL_SECONDS text_platform = Integral 60"
    by (simp add: CACHE_TTL_SECONDS_def text_platform_def parse_defs)
  from repopulate_failure_fails_read [OF up(1) parseInt_7, where cached = None and rows = "[]"
      and row = widget and js = text_platform] g1 q1 miss
  have a: "get_product text_platform ''7'' cache_up =
     (Sent \<lparr>status = 200, x_cache = Some ''MISS'', body = RowBody widget\<rparr>,
      cache_up\<lparr>calls := [RedisGet ''product:7'', ReadSelect 7, RedisSet ''product:7'' ?text (Integral 60)],
               redis := [''product:7'' \<mapsto> (?text, Integral 60)]\<rparr>)"
    by (simp add: toString_7 ttl s1)
  from repopulate_failure_fails_read [OF up(2) parseInt_7, where cached = None and rows = "[]"
      and row = widget and js = text_platform] g2 q2 miss
  have b: "get_product text_platform ''7'' cache_dropping =
     (Sent \<lparr>status = 503, x_cache = None, body = ErrorBody ''Redis unavailable''\<rparr>,
      cache_down\<lparr>calls := ?read\<rparr>)"
    by (simp add: toString_7 ttl s2)
  from a b show ?thesis by simp
qed

section \<open>The write path\<close>

text \<open>
  C6. Take an id that parses, a body with a non-empty name and an integer price, the flag
  true, no row with that id on the primary, and an \<^verbatim>\<open>UPDATE\<close> that completes. The route
  answers 404 "Not found"; the \<^verbatim>\<open>UPDATE\<close> is the only call it issues, so no
  \<^verbatim>\<open>redis.del\<close> is made, and Redis and the primary hold what they held.
\<close>

theorem update_missing_row_not_found:
  assumes "redisReady w" and "parseInt id_param = Integral n"
    and "body_name b = Some nm" and "nm \<noteq> []" and "body_price_cents b = Some (Integral price)"
    and "primary w n = None"
    and "\<not> rejects (tick_at 0 w)"
  shows "fst (put_product js id_param (Some b) w) =
           Sent \<lparr>status = 404, x_cache = None, body = ErrorBody ''Not found''\<rparr>
       \<and> calls (snd (put_product js id_param (Some b) w)) = calls w @ [WriteUpdate nm price n]
       \<and> redis (snd (put_product js id_param (Some b) w)) = redis w
       \<and> primary (snd (put_product js id_param (Some b) w)) = primary w"
  using assms
  by (simp add: put_product_def ensureRedis_def writePool_query_def truthy_def Let_def)

theorem update_missing_row_not_found_witness:
  "parseInt ''8'' = Integral 8 \<and> primary cache_up 8 = None
   \<and> fst (put_product text_platform ''8'' (Some widget2) cache_up) =
       Sent \<lparr>status = 404, x_cache = None, body = ErrorBody ''Not found''\<rparr>
   \<and> calls (snd (put_product text_platform ''8'' (Some widget2) cache_up)) =
       [WriteUpdate ''Widget2'' 1099 8]"
proof -
  have h: "redisReady cache_up" "body_name widget2 = Some ''Widget2''" "''Widget2'' \<noteq> []"
    "body_price_cents widget2 = Some (Integral 1099)" "primary cache_up 8 = None"
    "\<not> rejects (tick_at 0 cache_up)"
    by (simp_all add: samples tick_at_def next_tick_def)
  from update_missing_row_not_found [OF h(1) parseInt_8 h(2-6), of text_platform] h parseInt_8
  show ?thesis
    by (simp add: samples)
qed

text \<open>
  C7. Take an id that parses, a valid body, the flag true on entry and a row with that id
  on the primary. If the \<^verbatim>\<open>UPDATE\<close> returns and the \<^verbatim>\<open>cacheDel\<close> that follows throws,
  the route answers 503, and yet the primary holds the row with the new name, the new
  price and the time of the write: nothing undoes the \<^verbatim>\<open>UPDATE\<close>. Redis holds what it
  held, so an entry cached for the id stays.
\<close>

theorem invalidate_failure_keeps_write:
  assumes "redisReady w" and "parseInt id_param = Integral n"
    and "body_name b = Some nm" and "nm \<noteq> []" and "body_price_cents b = Some (Integral price)"
    and "primary w n = Some r"
    and "writePool_query nm price n w = (Returned rows, w1)"
    and "fst (cacheDel (''product:'' @ Number_toString n) w1) = Threw e"
  shows "fst (put_product js id_param (Some b) w) =
           Sent \<lparr>status = 503, x_cache = None, body = ErrorBody ''Redis unavailable''\<rparr>
       \<and> primary (snd (put_product js id_param (Some b) w)) n =
           Some (r\<lparr>name := nm, price_cents := price, updated_at := now w\<rparr>)
       \<and> redis (snd (put_product js id_param (Some b) w)) = redis w"
proof -
  let ?r1 = "r\<lparr>name := nm, price_cents := price, updated_at := now w\<rparr>"
  let ?del = "cacheDel (''product:'' @ Number_toString n) w1"
  have rows: "rows = [?r1]" and prim: "primary w1 n = Some ?r1" and red: "redis w1 = redis w"
    using assms(6,7) by (auto simp add: writePool_query_def Let_def split: if_splits)
  have del: "primary (snd ?del) = primary w1 \<and> redis (snd ?del) = redis w1"
    using assms(8) by (auto simp add: cacheDel_def redis_del_def Let_def split: if_splits)
  have run: "put_product js id_param (Some b) w =
      (Sent \<lparr>status = 503, x_cache = None, body = ErrorBody ''Redis unavailable''\<rparr>, snd ?del)"
    using assms(1-5,7,8) rows
    by (cases ?del) (simp add: put_product_def ensureRedis_def truthy_def Let_def)
  show ?thesis
    using run prim red del by simp
qed

theorem invalidate_failure_keeps_write_witness:
  "fst (put_product text_platform ''7'' (Some widget2) cache_dropping) =
     Sent \<lparr>status = 503, x_cache = None, body = ErrorBody ''Redis unavailable''\<rparr>
   \<and> primary (snd (put_product text_platform ''7'' (Some widget2) cache_dropping)) 7 =
     Some \<lparr>pid = 7, name = ''Widget2'', price_cents = 1099, updated_at = 2\<rparr>
   \<and> primary cache_dropping 7 = Some widget"
proof -
  let ?r1 = "\<lparr>pid = 7, name = ''Widget2'', price_cents = 1099, updated_at = 2\<rparr>"
  let ?w1 = "cache_down\<lparr>calls := [WriteUpdate ''Widget2'' 1099 7], primary := [7 \<mapsto> ?r1]\<rparr>"
  have h: "redisReady cache_dropping" "body_name widget2 = Some ''Widget2''" "''Widget2'' \<noteq> []"
    "body_price_cents widget2 = Some (Integral 1099)" "primary cache_dropping 7 = Some widget"
    by (simp_all add: samples)
  have u: "writePool_query ''Widget2'' 1099 7 cache_dropping = (Returned [?r1], ?w1)"
    by (simp add: writePool_query_def Let_def next_tick_def resume_def samples)
  have d: "fst (cacheDel (''product:'' @ Number_toString 7) ?w1) = Threw (ErrorObject ''Redis unavailable'')"
    by (simp add: cacheDel_def cache_down_def)
  from invalidate_failure_keeps_write [OF h(1) parseInt_7 h(2-5) u d, of text_platform] h(5)
  show ?thesis
    by (simp add: samples)
qed

section \<open>The cache key\<close>

text \<open>
  C8, as the code has it. For an id that parses to \<open>n\<close>, every call to Redis that
  \<^verbatim>\<open>GET /products/:id\<close> issues (the lookup and the store) and every call to Redis that
  \<^verbatim>\<open>PUT /products/:id\<close> issues (the invalidation) names the key \<^verbatim>\<open>product:\<close> followed
  by the decimal digits of \<open>n\<close>, in whatever states the two routes run.
\<close>

theorem cache_key_is_product_id:
  assumes "parseInt id_param = Integral n"
  shows "(\<forall>c \<in> set (issued w (snd (get_product js id_param w))).
            cache_key c \<in> {None, Some (''product:'' @ Number_toString n)})
       \<and> (\<forall>c \<in> set (issued w' (snd (put_product js id_param req_body w'))).
            cache_key c \<in> {None, Some (''product:'' @ Number_toString n)})"
proof
  show "\<forall>c \<in> set (issued w (snd (get_product js id_param w))).
           cache_key c \<in> {None, Some (''product:'' @ Number_toString n)}"
    using assms
    by (simp add: get_product_def ensureRedis_def io_defs Let_def issued_def
        split: list.splits option.splits)
  show "\<forall>c \<in> set (issued w' (snd (put_product js id_param req_body w'))).
           cache_key c \<in> {None, Some (''product:'' @ Number_toString n)}"
    using assms
    by (simp add: put_product_def ensureRedis_def io_defs Let_def issued_def
        split: list.splits option.splits number.splits)
qed

theorem cache_key_is_product_id_witness:
  "issued cache_up (snd (get_product text_platform ''7'' cache_up)) =
     [RedisGet ''product:7'', ReadSelect 7,
      RedisSet ''product:7'' (JSON_stringify text_platform widget) (Integral 60)]
   \<and> issued cache_up (snd (put_product text_platform ''7'' (Some widget2) cache_up)) =
     [WriteUpdate ''Widget2'' 1099 7, RedisDel ''product:7'']
   \<and> ''product:7'' = ''product:'' @ Number_toString 7"
proof -
  have g: "issued cache_up (snd (get_product text_platform ''7'' cache_up)) =
     [RedisGet ''product:7'', ReadSelect 7,
      RedisSet ''product:7'' (JSON_stringify text_platform widget) (Integral 60)]"
    by (simp add: issued_def get_7_calls) (simp add: cache_up_def cache_down_def)
  have p: "issued cache_up (snd (put_product text_platform ''7'' (Some widget2) cache_up)) =
     [WriteUpdate ''Widget2'' 1099 7, RedisDel ''product:7'']"
    by (simp add: issued_def put_7_calls) (simp add: cache_up_def cache_down_def)
  from cache_key_is_product_id [OF parseInt_7, of cache_up text_platform cache_up "Some widget2"]
  have "cache_key (RedisDel ''product:7'') \<in> {None, Some (''product:'' @ Number_toString 7)}"
    unfolding p by simp
  then have "''product:7'' = ''product:'' @ Number_toString 7"
    by simp
  with g p show ?thesis by blast
qed

text \<open>
  The claim as the specification words it names two formats. The one of the data model,
  \<^verbatim>\<open>entity:<id>\<close>, is not the key: for id 7 the route looks up \<^verbatim>\<open>product:7\<close>.
\<close>

theorem cache_key_counterexample:
  "hd (calls (snd (get_product text_platform ''7'' cache_up))) = RedisGet ''product:7''
   \<and> RedisGet ''product:7'' \<noteq> RedisGet ''entity:7''"
  by (simp add: get_7_calls)

section \<open>Health\<close>

text \<open>
  C9, as the code has it. \<^verbatim>\<open>GET /health\<close> answers 200 for every state of the process,
  whatever the liveness flag. The body is the object with the two properties \<^verbatim>\<open>ok\<close>,
  which is true, and \<^verbatim>\<open>redis\<close>, which is the current value of \<^verbatim>\<open>redisReady\<close>. The
  state is left as it was, so no call to Redis or to a pool is issued.
\<close>

theorem health_reports_redis_flag:
  "health w =
     (Sent \<lparr>status = 200, x_cache = None,
            body = ObjectBody [(''ok'', True), (''redis'', redisReady w)]\<rparr>, w)
   \<and> property_names (fst (health w)) = Some [''ok'', ''redis'']
   \<and> issued w (snd (health w)) = []"
  by (simp add: health_def property_names_def issued_def)

text \<open>
  The claim as the specification words it gives the body the shape \<^verbatim>\<open>{ok, cacheLive}\<close>.
  The object sent has no property of that name: with the flag false the body is
  \<^verbatim>\<open>{ ok: true, redis: false }\<close>.
\<close>

theorem health_shape_counterexample:
  "fst (health cache_down :: string reply \<times> world) =
     Sent \<lparr>status = 200, x_cache = None,
           body = ObjectBody [(''ok'', True), (''redis'', False)]\<rparr>
   \<and> property_names (fst (health cache_down :: string reply \<times> world)) = Some [''ok'', ''redis'']
   \<and> property_names (fst (health cache_down :: string reply \<times> world)) \<noteq>
       Some [''ok'', ''cacheLive'']"
  by (simp add: health_def property_names_def cache_down_def)

end
